theory Spec2Isabelle
  imports Complex_Main "HOL-Library.Char_ord" "HOL-Library.List_Lexorder" "HOL-Library.Sublist"
begin

section \<open>First-level analysis notebook of fmriflows\<close>

text \<open>
  The development embeds the Python cells of \<^verbatim>\<open>notebooks/03_analysis_1st-level.ipynb\<close>:
  the configuration cells (repetition time, contrast list), the function nodes
  \<^verbatim>\<open>subjectinfo\<close>, \<^verbatim>\<open>create_nuisance_regressors\<close>, \<^verbatim>\<open>get_contrast_per_run\<close> and
  \<^verbatim>\<open>write_labels_file\<close>, and the iterable declarations of \<^verbatim>\<open>infosource\<close> and
  \<^verbatim>\<open>selectfiles\<close>. Python strings are \<^typ>\<open>string\<close>; Python's \<^verbatim>\<open>sorted\<close> on strings is
  \<^const>\<open>sort\<close> under the lexicographic order on character codes. Uncaught exceptions are
  values of the type \<open>error\<close>, returned on the left of a sum.
\<close>

subsection \<open>Exceptions\<close>

text \<open>
  The Python exceptions that the embedded cells and functions can raise, and
  \<open>ConfigError\<close>, the error of the specification. No statement of the notebook raises
  \<open>ConfigError\<close> (the source defines no exception of its own); it is the result of the
  expansion that is modelled from the specification, and of nothing else.
\<close>

datatype error = ConfigError | FileNotFoundError | KeyError | IndexError | ValueError

subsection \<open>String helpers of the Python runtime\<close>

text \<open>\<^verbatim>\<open>str(n)\<close> for a non-negative integer: its decimal digits.\<close>

fun str_nat :: "nat \<Rightarrow> string" where
  "str_nat n =
     (if n < 10 then [''0123456789'' ! n]
      else str_nat (n div 10) @ [''0123456789'' ! (n mod 10)])"

declare str_nat.simps [simp del]

text \<open>\<^verbatim>\<open>'%0wd' % n\<close> for a non-negative integer: the decimal digits, padded on the left
  with zeros up to width \<open>w\<close> (longer numbers are not cut).\<close>

definition fmt_0d :: "nat \<Rightarrow> nat \<Rightarrow> string" where
  "fmt_0d w n = replicate (w - length (str_nat n)) CHR ''0'' @ str_nat n"

text \<open>\<^verbatim>\<open>os.path.join(a, b)\<close> on POSIX, for two components.\<close>

definition opj :: "string \<Rightarrow> string \<Rightarrow> string" where
  "opj a b =
     (if b \<noteq> [] \<and> hd b = CHR ''/'' then b
      else if a = [] \<or> last a = CHR ''/'' then a @ b
      else a @ ''/'' @ b)"

text \<open>\<^verbatim>\<open>n in k\<close> on strings: \<open>n\<close> occurs in \<open>k\<close> as a contiguous substring.\<close>

definition str_in :: "string \<Rightarrow> string \<Rightarrow> bool" where
  "str_in n k = sublist n k"

subsection \<open>Contrast list\<close>

text \<open>
  One entry of \<^verbatim>\<open>specs['contrasts']\<close>: a JSON object with the keys \<^verbatim>\<open>name\<close>,
  \<^verbatim>\<open>type\<close> and \<^verbatim>\<open>weights\<close>. The weights are a JSON array in both forms (numbers for
  a T contrast, weight rows for an F contrast); \<open>'w\<close> is the type of its elements.
\<close>

record 'w con_spec =
  name :: string
  type :: string
  weights :: "'w list"

text \<open>
  A resolved contrast, as handed to \<^verbatim>\<open>EstimateContrast\<close>: the four-element list
  \<^verbatim>\<open>[name, type, condition_names, weights]\<close> or the three-element list
  \<^verbatim>\<open>[name, type, [[T_con_name, 'T', condition_names, row], ...]]\<close>.
\<close>

datatype 'w contrast =
  T_contrast string string "string list" "'w list"
| F_contrast string string "(string \<times> string \<times> string list \<times> 'w) list"

fun contrast_name :: "'w contrast \<Rightarrow> string" where
  "contrast_name (T_contrast n t cs ws) = n"
| "contrast_name (F_contrast n t es) = n"

fun contrast_type :: "'w contrast \<Rightarrow> string" where
  "contrast_type (T_contrast n t cs ws) = t"
| "contrast_type (F_contrast n t es) = t"

text \<open>
  \<^verbatim>\<open>contrast_list = [[c['name'], c['type'], [['T_con_%04d' % i, 'T', condition_names, f]
                     for i, f in enumerate(c['weights'])]] for c in con_specs if c['type'] == 'F']\<close>
  \<^verbatim>\<open>contrast_list += [[c['name'], c['type'], condition_names, c['weights']]
                     for c in con_specs if c['type'] == 'T']\<close>
\<close>

definition contrast_list :: "string list \<Rightarrow> 'w con_spec list \<Rightarrow> 'w contrast list" where
  "contrast_list condition_names con_specs =
     [F_contrast (name c) (type c)
        [(''T_con_'' @ fmt_0d 4 i, ''T'', condition_names, f). (i, f) \<leftarrow> enumerate 0 (weights c)].
      c \<leftarrow> con_specs, type c = ''F'']
     @ [T_contrast (name c) (type c) condition_names (weights c).
        c \<leftarrow> con_specs, type c = ''T'']"

text \<open>A JSON value of the specification file: a number, a string or an array.\<close>

datatype jvalue = Num rat | Str string | Arr "jvalue list"

subsection \<open>Subject information\<close>

text \<open>
  A row of an events table (\<^verbatim>\<open>*_events.tsv\<close>) with the three columns the notebook reads.
  Onsets and durations are numbers of a type \<open>'a\<close> with a subtraction; nothing else is
  asked of it.
\<close>

record 'a event =
  condition :: string
  onset :: 'a
  duration :: 'a

text \<open>nipype's \<^verbatim>\<open>Bunch(conditions=..., onsets=..., durations=...)\<close>.\<close>

record 'a Bunch =
  conditions :: "string list"
  onsets :: "'a list list"
  durations :: "'a list list"

text \<open>
  What \<^verbatim>\<open>subjectinfo\<close> reads from the disk: \<^verbatim>\<open>glob(pattern)\<close> (the paths that match, in
  the order of the directory), \<^verbatim>\<open>pd.read_table(f)\<close> of an events file (its rows, in file
  order) and \<^verbatim>\<open>np.loadtxt(f)\<close> of a non-steady-state file (its one number).
\<close>

record 'a filesystem =
  glob :: "string \<Rightarrow> string list"
  read_table :: "string \<Rightarrow> 'a event list"
  loadtxt :: "string \<Rightarrow> 'a"

text \<open>
  \<^verbatim>\<open>'/data/sub-%s/func/' % subject_id + 'sub-%s_task-%s_run-*_events.tsv' % (subject_id, task_id)\<close>
\<close>

definition events_template :: "string \<Rightarrow> string \<Rightarrow> string" where
  "events_template subject_id task_id =
     (''/data/sub-'' @ subject_id @ ''/func/'')
     @ (''sub-'' @ subject_id @ ''_task-'' @ task_id @ ''_run-*_events.tsv'')"

text \<open>
  \<^verbatim>\<open>'/data/derivatives/fmriflows/preproc_func/sub-%s/' % subject_id
    + 'sub-%s_task-%s_run-*_nss.txt' % (subject_id, task_id)\<close>
\<close>

definition nss_template :: "string \<Rightarrow> string \<Rightarrow> string" where
  "nss_template subject_id task_id =
     (''/data/derivatives/fmriflows/preproc_func/sub-'' @ subject_id @ ''/'')
     @ (''sub-'' @ subject_id @ ''_task-'' @ task_id @ ''_run-*_nss.txt'')"

text \<open>
  \<^verbatim>\<open>trialinfo.groupby('condition')\<close>: one group for each distinct condition, the groups in
  ascending order of their key, each with its rows in table order.
\<close>

definition groupby_condition :: "'a event list \<Rightarrow> (string \<times> 'a event list) list" where
  "groupby_condition trialinfo =
     [(k, filter (\<lambda>r. condition r = k) trialinfo). k \<leftarrow> sort (remdups (map condition trialinfo))]"

text \<open>
  The body of the loop over the groups of one run:
  \<^verbatim>\<open>if group[0] != 'empty': conditions.append(str(group[0]));
       onsets.append(list(group[1].onset - nss)); durations.append(group[1].duration.tolist())\<close>
\<close>

definition run_bunch :: "'a::minus event list \<Rightarrow> 'a \<Rightarrow> 'a Bunch" where
  "run_bunch trialinfo nss =
     (let groups = [group \<leftarrow> groupby_condition trialinfo. fst group \<noteq> ''empty''] in
      \<lparr>conditions = map fst groups,
       onsets = map (\<lambda>group. map (\<lambda>r. onset r - nss) (snd group)) groups,
       durations = map (\<lambda>group. map duration (snd group)) groups\<rparr>)"

text \<open>
  \<^verbatim>\<open>for i, f in enumerate(event_files)\<close>, from the index \<open>i\<close> on. \<^verbatim>\<open>nss_files[i]\<close> raises
  IndexError when there are fewer non-steady-state files than event files.
\<close>

fun subject_runs ::
  "'a::minus filesystem \<Rightarrow> string list \<Rightarrow> nat \<Rightarrow> string list
     \<Rightarrow> error + ('a Bunch list \<times> string list list)" where
  "subject_runs fs nss_files i [] = Inr ([], [])"
| "subject_runs fs nss_files i (f # event_files) =
     (let trialinfo = read_table fs f in
      if i < length nss_files then
        (case subject_runs fs nss_files (Suc i) event_files of
           Inl e \<Rightarrow> Inl e
         | Inr (subject_info, stimuli_order) \<Rightarrow>
             Inr (run_bunch trialinfo (loadtxt fs (nss_files ! i)) # subject_info,
                  map condition trialinfo # stimuli_order))
      else Inl IndexError)"

definition subjectinfo ::
  "'a::minus filesystem \<Rightarrow> string \<Rightarrow> string
     \<Rightarrow> error + ('a Bunch list \<times> string list list)" where
  "subjectinfo fs subject_id task_id =
     (let event_files = sort (glob fs (events_template subject_id task_id));
          nss_files = sort (glob fs (nss_template subject_id task_id))
      in subject_runs fs nss_files 0 event_files)"

subsection \<open>Nuisance regressors\<close>

text \<open>
  A confound table as pandas reads it: its columns in file order, each with its header
  and its values.
\<close>

type_synonym 'a DataFrame = "(string \<times> 'a list) list"

text \<open>\<^verbatim>\<open>[k for k in df.keys() for n in nuisance_regressors if n in k]\<close>\<close>

definition selection :: "string list \<Rightarrow> string list \<Rightarrow> string list" where
  "selection keys nuisance_regressors = [k. k \<leftarrow> keys, n \<leftarrow> nuisance_regressors, str_in n k]"

text \<open>\<^verbatim>\<open>df[selection]\<close>: for each label of the list in turn, the columns of that label.\<close>

definition df_getitem :: "'a DataFrame \<Rightarrow> string list \<Rightarrow> 'a DataFrame" where
  "df_getitem df labels = concat (map (\<lambda>k. filter (\<lambda>col. fst col = k) df) labels)"

text \<open>
  \<^verbatim>\<open>create_nuisance_regressors(confounds, nuisance_regressors)\<close>. The working directory
  \<open>cwd\<close> of the node (for \<^verbatim>\<open>abspath\<close>) and \<^verbatim>\<open>pd.read_table\<close> on confound files are
  parameters. The result lists, for each confound file, the path \<^verbatim>\<open>out_file\<close> together with
  the selected table \<^verbatim>\<open>dfs\<close> whose values \<^verbatim>\<open>np.savetxt\<close> writes there; the paths are the
  returned \<^verbatim>\<open>regressor_files\<close>.
\<close>

definition create_nuisance_regressors ::
  "string \<Rightarrow> (string \<Rightarrow> 'a DataFrame) \<Rightarrow> string list \<Rightarrow> string list
     \<Rightarrow> (string \<times> 'a DataFrame) list" where
  "create_nuisance_regressors cwd read_confounds confounds nuisance_regressors =
     [(let df = read_confounds c;
           dfs = df_getitem df (selection (map fst df) nuisance_regressors);
           out_file = opj cwd (''confounds_'' @ fmt_0d 2 i @ ''.rst'')
       in (out_file, dfs)).
      (i, c) \<leftarrow> enumerate 0 confounds]"

subsection \<open>Contrasts per run\<close>

text \<open>
  \<^verbatim>\<open>np.reshape(event_list, (-1, 2))\<close> on the list of per-run lists of pairs. When all runs
  have the same number of events the nested list is a rectangular array and the result
  is the sequence of all its pairs, run after run. A ragged list has no such array:
  NumPy from release 1.24 on raises ValueError when it builds the array (older releases
  build an array of list objects instead, whose reshape fails or pairs up whole runs);
  the model takes the raise.
\<close>

definition np_reshape_pairs :: "('a \<times> 'b) list list \<Rightarrow> error + ('a \<times> 'b) list" where
  "np_reshape_pairs event_list =
     (if list_all (\<lambda>l. length l = length (hd event_list)) event_list
      then Inr (concat event_list) else Inl ValueError)"

text \<open>\<^verbatim>\<open>np.unique\<close>: the distinct elements, sorted.\<close>

definition np_unique :: "'a::linorder list \<Rightarrow> 'a list" where
  "np_unique xs = sort (remdups xs)"

text \<open>
  A per-run contrast \<^verbatim>\<open>[name, 'T', condition_names, con_id, run_id]\<close>; the entries of
  \<^verbatim>\<open>con_id\<close> and \<^verbatim>\<open>run_id\<close> are 0 and 1.
\<close>

type_synonym run_contrast = "string \<times> string \<times> string list \<times> nat list \<times> nat list"

text \<open>
  \<^verbatim>\<open>get_contrast_per_run(stimuli_order, condition_names)\<close>. The run index and the
  condition of every event make up \<^verbatim>\<open>event_info\<close>; \<^verbatim>\<open>n_runs\<close> holds the distinct run
  indices found there (\<^verbatim>\<open>unique_contrasts\<close> is computed by the source and never read).
  The name of a contrast is \<^verbatim>\<open>'cont_%05d' % (1 + i + j * n_conditions)\<close>, as the source
  has it.
\<close>

definition get_contrast_per_run ::
  "string list list \<Rightarrow> string list \<Rightarrow> error + (run_contrast list \<times> string list)" where
  "get_contrast_per_run stimuli_order condition_names =
     (let event_list = [[(i, z). z \<leftarrow> l]. (i, l) \<leftarrow> enumerate 0 stimuli_order] in
      case np_reshape_pairs event_list of
        Inl e \<Rightarrow> Inl e
      | Inr event_info \<Rightarrow>
          (let n_runs = np_unique (map fst event_info);
               n_contrasts = length condition_names;
               n_conditions = length n_runs
           in Inr ([(''cont_'' @ fmt_0d 5 (1 + i + j * n_conditions), ''T'', condition_names,
                     (replicate n_contrasts 0)[i := 1], (replicate n_conditions 0)[j := 1]).
                    j \<leftarrow> [0..<n_conditions], i \<leftarrow> [0..<n_contrasts]],
                   [condition_names ! i. j \<leftarrow> [0..<n_conditions], i \<leftarrow> [0..<n_contrasts]])))"

text \<open>\<^verbatim>\<open>s.replace(old, new)\<close>: every occurrence of \<open>old\<close>, leftmost first, none overlapping.\<close>

fun str_replace :: "string \<Rightarrow> string \<Rightarrow> string \<Rightarrow> string" where
  "str_replace old new s =
     (if old = [] then new @ concat (map (\<lambda>c. c # new) s)
      else if s = [] then []
      else if prefix old s then new @ str_replace old new (drop (length old) s)
      else hd s # str_replace old new (tl s))"

declare str_replace.simps [simp del]

text \<open>
  \<^verbatim>\<open>write_labels_file(condition_labels, spm_mat_file)\<close>: the path of the label file and the
  rows \<^verbatim>\<open>np.savetxt(label_file, condition_labels, fmt='%s')\<close> writes, one for each label.
\<close>

definition write_labels_file :: "string list \<Rightarrow> string \<Rightarrow> string \<times> string list" where
  "write_labels_file condition_labels spm_mat_file =
     (let label_file = str_replace ''SPM.mat'' ''labels.csv'' spm_mat_file
      in (label_file, condition_labels))"

subsection \<open>Configuration cells and iterables\<close>

text \<open>
  The options of \<^verbatim>\<open>analysis-1stlevel_specs.json\<close> that the TR cell, the model
  specification and the iterables read. A filter is a JSON array: \<^verbatim>\<open>[mode, value]\<close> for a
  spatial filter, \<^verbatim>\<open>[low, high]\<close> for a temporal one.
\<close>

record specs =
  subject_list :: "jvalue list"
  task_id :: string
  filters_spatial :: "jvalue list list"
  filters_temporal :: "jvalue list list"

text \<open>
  \<^verbatim>\<open>func_desc = opj('/data', 'task-%s_bold.json' % task_id)\<close>, then \<^verbatim>\<open>open\<close>,
  \<^verbatim>\<open>json.load\<close> and \<^verbatim>\<open>func_desc['RepetitionTime']\<close>. The JSON files on the disk are a map
  from paths to parsed objects: \<^verbatim>\<open>open\<close> raises FileNotFoundError for a path that is not
  there, and the subscript raises KeyError for an object without the key.
\<close>

definition func_desc_path :: "string \<Rightarrow> string" where
  "func_desc_path task = opj ''/data'' (''task-'' @ task @ ''_bold.json'')"

definition get_TR :: "(string \<rightharpoonup> (string \<rightharpoonup> 'v)) \<Rightarrow> string \<Rightarrow> error + 'v" where
  "get_TR json_files task =
     (case json_files (func_desc_path task) of
        None \<Rightarrow> Inl FileNotFoundError
      | Some func_desc \<Rightarrow>
          (case func_desc ''RepetitionTime'' of
             None \<Rightarrow> Inl KeyError
           | Some TR \<Rightarrow> Inr TR))"

text \<open>
  The model specification node is built with
  \<^verbatim>\<open>high_pass_filter_cutoff=filters_temporal[0][1]\<close>: the second entry of the first
  temporal filter. Either subscript raises IndexError when it is out of range.
\<close>

definition high_pass_filter_cutoff :: "jvalue list list \<Rightarrow> error + jvalue" where
  "high_pass_filter_cutoff tfilters =
     (case tfilters of
        [] \<Rightarrow> Inl IndexError
      | tFilter # _ \<Rightarrow> (if 1 < length tFilter then Inr (tFilter ! 1) else Inl IndexError))"

text \<open>
  \<^verbatim>\<open>infosource.iterables = [('subject_id', subject_list)]\<close> and
  \<^verbatim>\<open>selectfiles.iterables = [('tFilter', filters_temporal), ('sFilter', filters_spatial)]\<close>.
  The lists go to the nodes as they were read from the specification file; a filter is
  the value \<^const>\<open>Arr\<close> of its entries.
\<close>

definition infosource_iterables :: "specs \<Rightarrow> (string \<times> jvalue list) list" where
  "infosource_iterables sp = [(''subject_id'', subject_list sp)]"

definition selectfiles_iterables :: "specs \<Rightarrow> (string \<times> jvalue list) list" where
  "selectfiles_iterables sp =
     [(''tFilter'', map Arr (filters_temporal sp)), (''sFilter'', map Arr (filters_spatial sp))]"

text \<open>
  The cells of the notebook that come before \<^verbatim>\<open>analysis_1st.run\<close>, as far as the options
  above go: the TR cell, the cell that builds the model specification node, and the two
  cells that declare the iterables. A cell that raises ends the notebook there. The result
  is the list of iterable axes that the workflow is run with: the notebook has no other
  statement that reads the three lists before the run, and none that tests them.
\<close>

definition notebook_setup ::
  "(string \<rightharpoonup> (string \<rightharpoonup> jvalue)) \<Rightarrow> specs \<Rightarrow> error + (string \<times> jvalue list) list" where
  "notebook_setup json_files sp =
     (case get_TR json_files (task_id sp) of
        Inl e \<Rightarrow> Inl e
      | Inr TR \<Rightarrow>
          (case high_pass_filter_cutoff (filters_temporal sp) of
             Inl e \<Rightarrow> Inl e
           | Inr cutoff \<Rightarrow> Inr (infosource_iterables sp @ selectfiles_iterables sp)))"

text \<open>
  The notebook as a whole. \<^verbatim>\<open>analysis_1st.run\<close> belongs to the workflow engine, which is not
  part of the sources: it is the parameter \<open>run\<close>, a function of the iterable axes with
  any result type. The notebook calls it only after the cells before it have returned.
\<close>

definition notebook ::
  "((string \<times> jvalue list) list \<Rightarrow> error + 'r)
     \<Rightarrow> (string \<rightharpoonup> (string \<rightharpoonup> jvalue)) \<Rightarrow> specs \<Rightarrow> error + 'r" where
  "notebook run json_files sp =
     (case notebook_setup json_files sp of
        Inl e \<Rightarrow> Inl e
      | Inr axes \<Rightarrow> run axes)"

text \<open>
  Modelled from the spec: the Cartesian product of the iterable axes, which the workflow
  engine (nipype, not part of the sources) computes. Section 4.2 of the specification
  gives it in a fixed order, the declaration order of the axes and then the sequence
  order within each axis, with the empty binding as the only tuple when no axis is
  declared.
\<close>

fun cartesian :: "(string \<times> 'v list) list \<Rightarrow> (string \<times> 'v) list list" where
  "cartesian [] = [[]]"
| "cartesian ((axis, vals) # axes) =
     [(axis, v) # binding. v \<leftarrow> vals, binding \<leftarrow> cartesian axes]"

text \<open>
  Modelled from the spec: the expansion of section 4.2,
  \<^verbatim>\<open>expand(axes: mapping of name -> sequence) -> sequence of ParameterTuple\<close>, which is the
  engine's and not part of the sources. It computes the Cartesian product; no axis may be
  empty, and it fails with \<open>ConfigError\<close> (empty iterable axis) if one is.
\<close>

definition expand :: "(string \<times> 'v list) list \<Rightarrow> error + (string \<times> 'v) list list" where
  "expand axes =
     (if list_ex (\<lambda>axis. snd axis = []) axes then Inl ConfigError else Inr (cartesian axes))"

text \<open>
  Modelled from the spec: the parameter tuples of the branches of \<^verbatim>\<open>analysis_1st\<close>, the
  expansion of section 4.2 applied to the axes that the notebook declares.
\<close>

definition branches :: "specs \<Rightarrow> error + (string \<times> jvalue) list list" where
  "branches sp = expand (infosource_iterables sp @ selectfiles_iterables sp)"

text \<open>
  A small dataset for subject \<^verbatim>\<open>01\<close> and task \<^verbatim>\<open>t\<close>: two runs, the directory listing the
  event files of run 2 before those of run 1.
\<close>

definition example_fs :: "int filesystem" where
  "example_fs =
     \<lparr>glob = (\<lambda>p.
         if p = ''/data/sub-01/func/sub-01_task-t_run-*_events.tsv''
         then [''/data/sub-01/func/sub-01_task-t_run-2_events.tsv'',
               ''/data/sub-01/func/sub-01_task-t_run-1_events.tsv'']
         else if p = ''/data/derivatives/fmriflows/preproc_func/sub-01/sub-01_task-t_run-*_nss.txt''
         then [''/data/derivatives/fmriflows/preproc_func/sub-01/sub-01_task-t_run-1_nss.txt'',
               ''/data/derivatives/fmriflows/preproc_func/sub-01/sub-01_task-t_run-2_nss.txt'']
         else []),
      read_table = (\<lambda>f.
         if f = ''/data/sub-01/func/sub-01_task-t_run-1_events.tsv''
         then [\<lparr>condition = ''houses'', onset = 10, duration = 2\<rparr>,
               \<lparr>condition = ''empty'', onset = 20, duration = 3\<rparr>,
               \<lparr>condition = ''faces'', onset = 30, duration = 2\<rparr>,
               \<lparr>condition = ''houses'', onset = 40, duration = 5\<rparr>]
         else [\<lparr>condition = ''houses'', onset = 5, duration = 1\<rparr>]),
      loadtxt = (\<lambda>f.
         if f = ''/data/derivatives/fmriflows/preproc_func/sub-01/sub-01_task-t_run-1_nss.txt''
         then 4 else 6)\<rparr>"

text \<open>
  A specification with two subjects, three temporal filters and two spatial filters; and
  a metadata file for the task \<^verbatim>\<open>t\<close>.
\<close>

definition example_specs :: specs where
  "example_specs =
     \<lparr>subject_list = [Str ''01'', Str ''02''],
      task_id = ''t'',
      filters_spatial = [[Str ''LP'', Num 6], [Str ''LP'', Num 3]],
      filters_temporal = [[Num 5, Num 100], [Num 5, Num 50], [Num 0, Num 100]]\<rparr>"


section \<open>Properties\<close>

subsection \<open>Auxiliary facts\<close>

lemma comprehension_filter_map:
  "[f x. x \<leftarrow> xs, P x] = map f (filter P xs)"
  by (induction xs) simp_all

lemma contrast_list_map_filter:
  "contrast_list cn cs =
     map (\<lambda>c. F_contrast (name c) (type c)
            (map (\<lambda>(i, f). (''T_con_'' @ fmt_0d 4 i, ''T'', cn, f)) (enumerate 0 (weights c))))
       (filter (\<lambda>c. type c = ''F'') cs)
     @ map (\<lambda>c. T_contrast (name c) (type c) cn (weights c))
         (filter (\<lambda>c. type c = ''T'') cs)"
  unfolding contrast_list_def comprehension_filter_map
  by (simp add: case_prod_unfold)

lemma fmt_0d_4_small: "fmt_0d 4 0 = ''0000''" "fmt_0d 4 1 = ''0001''" "fmt_0d 4 (Suc 0) = ''0001''"
  by code_simp+

subsection \<open>Contrast resolution\<close>

text \<open>
  Claim C3. For every declared contrast list, the resolved list consists of the entries of
  type \<^verbatim>\<open>'F'\<close> followed by the entries of type \<^verbatim>\<open>'T'\<close>, one resolved entry for each of
  them. The entry of an F contrast is the triple of its name, \<^verbatim>\<open>'F'\<close> and an embedded
  list with one T contrast for each weight row: the one at the zero-based position \<open>i\<close> is
  named \<^verbatim>\<open>'T_con_%04d' % i\<close>, has type \<^verbatim>\<open>'T'\<close> and carries the whole list of condition
  names and the weight row \<open>i\<close>. The entry of a T contrast is the quadruple of its name,
  \<^verbatim>\<open>'T'\<close>, the list of condition names and its weight vector.
\<close>

theorem contrast_list_canonical_forms:
  fixes condition_names :: "string list" and con_specs :: "'w con_spec list"
  shows
  "(let Fs = filter (\<lambda>c. type c = ''F'') con_specs;
        Ts = filter (\<lambda>c. type c = ''T'') con_specs;
        res = contrast_list condition_names con_specs
    in length res = length Fs + length Ts
     \<and> (\<forall>k < length Fs. \<exists>emb.
           res ! k = F_contrast (name (Fs ! k)) ''F'' emb
         \<and> length emb = length (weights (Fs ! k))
         \<and> (\<forall>i < length (weights (Fs ! k)).
               emb ! i = (''T_con_'' @ fmt_0d 4 i, ''T'', condition_names, weights (Fs ! k) ! i)))
     \<and> (\<forall>k < length Ts.
           res ! (length Fs + k)
             = T_contrast (name (Ts ! k)) ''T'' condition_names (weights (Ts ! k))))"
proof -
  define Fs where "Fs = filter (\<lambda>c. type c = ''F'') con_specs"
  define Ts where "Ts = filter (\<lambda>c. type c = ''T'') con_specs"
  have tF: "type (Fs ! k) = ''F''" if "k < length Fs" for k
    using that nth_mem [OF that] unfolding Fs_def by simp
  have tT: "type (Ts ! k) = ''T''" if "k < length Ts" for k
    using that nth_mem [OF that] unfolding Ts_def by simp
  show ?thesis
    unfolding Let_def contrast_list_map_filter Fs_def [symmetric] Ts_def [symmetric]
    by (auto simp: nth_append tF tT nth_enumerate_eq)
qed

theorem contrast_list_canonical_forms_witness:
  "length (contrast_list [''faces'', ''houses'']
     [\<lparr>name = ''pos'', type = ''T'', weights = [Num 1, Num 0]\<rparr>,
      \<lparr>name = ''any'', type = ''F'', weights = [Arr [Num 1, Num 0], Arr [Num 0, Num 1]]\<rparr>]) = 2
   \<and> (\<exists>emb. contrast_list [''faces'', ''houses'']
     [\<lparr>name = ''pos'', type = ''T'', weights = [Num 1, Num 0]\<rparr>,
      \<lparr>name = ''any'', type = ''F'', weights = [Arr [Num 1, Num 0], Arr [Num 0, Num 1]]\<rparr>] ! 0
       = F_contrast ''any'' ''F'' emb
      \<and> length emb = 2
      \<and> emb ! 0 = (''T_con_0000'', ''T'', [''faces'', ''houses''], Arr [Num 1, Num 0])
      \<and> emb ! 1 = (''T_con_0001'', ''T'', [''faces'', ''houses''], Arr [Num 0, Num 1]))
   \<and> contrast_list [''faces'', ''houses'']
     [\<lparr>name = ''pos'', type = ''T'', weights = [Num 1, Num 0]\<rparr>,
      \<lparr>name = ''any'', type = ''F'', weights = [Arr [Num 1, Num 0], Arr [Num 0, Num 1]]\<rparr>] ! 1
       = T_contrast ''pos'' ''T'' [''faces'', ''houses''] [Num 1, Num 0]"
  using contrast_list_canonical_forms
    [where condition_names = "[''faces'', ''houses'']"
       and con_specs = "[\<lparr>name = ''pos'', type = ''T'', weights = [Num 1, Num 0]\<rparr>,
      \<lparr>name = ''any'', type = ''F'', weights = [Arr [Num 1, Num 0], Arr [Num 0, Num 1]]\<rparr>]"]
  by (auto simp: Let_def fmt_0d_4_small All_less_Suc numeral_2_eq_2)

text \<open>
  Claim C9. An entry whose type is neither \<^verbatim>\<open>'T'\<close> nor \<^verbatim>\<open>'F'\<close> leaves no trace: the
  resolved list is the one obtained after deleting such entries from the declaration, it
  has one entry for each declared T or F contrast and no other, and \<^const>\<open>contrast_list\<close>
  is a total function that has no error result. In the resolved list every entry of type
  \<^verbatim>\<open>'F'\<close> stands before every entry of type \<^verbatim>\<open>'T'\<close>, whatever the order of declaration.
\<close>

theorem contrast_list_other_types_omitted:
  fixes condition_names :: "string list" and con_specs :: "'w con_spec list"
  shows
  "contrast_list condition_names con_specs
     = contrast_list condition_names (filter (\<lambda>c. type c = ''T'' \<or> type c = ''F'') con_specs)
   \<and> length (contrast_list condition_names con_specs)
     = length (filter (\<lambda>c. type c = ''T'' \<or> type c = ''F'') con_specs)
   \<and> (\<forall>e \<in> set (contrast_list condition_names con_specs).
         contrast_type e = ''F'' \<or> contrast_type e = ''T'')
   \<and> (\<forall>i j. i < length (contrast_list condition_names con_specs)
          \<and> j < length (contrast_list condition_names con_specs)
          \<and> contrast_type (contrast_list condition_names con_specs ! i) = ''F''
          \<and> contrast_type (contrast_list condition_names con_specs ! j) = ''T''
          \<longrightarrow> i < j)"
proof -
  let ?F = "\<lambda>c::'w con_spec. type c = ''F''" and ?T = "\<lambda>c::'w con_spec. type c = ''T''"
  have fF: "filter ?F (filter (\<lambda>c. type c = ''T'' \<or> type c = ''F'') con_specs) = filter ?F con_specs"
    by (induction con_specs) auto
  have fT: "filter ?T (filter (\<lambda>c. type c = ''T'' \<or> type c = ''F'') con_specs) = filter ?T con_specs"
    by (induction con_specs) auto
  have len: "length (filter ?F con_specs) + length (filter ?T con_specs)
      = length (filter (\<lambda>c. type c = ''T'' \<or> type c = ''F'') con_specs)"
    by (induction con_specs) auto
  have tF: "type (filter ?F con_specs ! k) = ''F''" if "k < length (filter ?F con_specs)" for k
    using nth_mem [OF that] by simp
  have tT: "type (filter ?T con_specs ! k) = ''T''" if "k < length (filter ?T con_specs)" for k
    using nth_mem [OF that] by simp
  have c1: "contrast_list condition_names con_specs
     = contrast_list condition_names (filter (\<lambda>c. type c = ''T'' \<or> type c = ''F'') con_specs)"
    unfolding contrast_list_map_filter fF fT ..
  have c2: "length (contrast_list condition_names con_specs)
     = length (filter (\<lambda>c. type c = ''T'' \<or> type c = ''F'') con_specs)"
    unfolding contrast_list_map_filter using len by simp
  have c3: "\<forall>e \<in> set (contrast_list condition_names con_specs).
         contrast_type e = ''F'' \<or> contrast_type e = ''T''"
    unfolding contrast_list_map_filter by auto
  have c4: "\<forall>i j. i < length (contrast_list condition_names con_specs)
          \<and> j < length (contrast_list condition_names con_specs)
          \<and> contrast_type (contrast_list condition_names con_specs ! i) = ''F''
          \<and> contrast_type (contrast_list condition_names con_specs ! j) = ''T''
          \<longrightarrow> i < j"
    unfolding contrast_list_map_filter
    by (auto simp: nth_append tF tT split: if_splits)
  from c1 c2 c3 c4 show ?thesis by blast
qed

theorem contrast_list_other_types_omitted_witness:
  "contrast_list [''faces'', ''houses'']
     [\<lparr>name = ''pos'', type = ''T'', weights = [Num 1, Num 0]\<rparr>,
      \<lparr>name = ''odd'', type = ''t'', weights = [Num 1, Num 1]\<rparr>,
      \<lparr>name = ''any'', type = ''F'', weights = [Arr [Num 1, Num 0]]\<rparr>]
   = contrast_list [''faces'', ''houses'']
     [\<lparr>name = ''pos'', type = ''T'', weights = [Num 1, Num 0]\<rparr>,
      \<lparr>name = ''any'', type = ''F'', weights = [Arr [Num 1, Num 0]]\<rparr>]
   \<and> length (contrast_list [''faces'', ''houses'']
     [\<lparr>name = ''pos'', type = ''T'', weights = [Num 1, Num 0]\<rparr>,
      \<lparr>name = ''odd'', type = ''t'', weights = [Num 1, Num 1]\<rparr>,
      \<lparr>name = ''any'', type = ''F'', weights = [Arr [Num 1, Num 0]]\<rparr>]) = 2
   \<and> map contrast_name (contrast_list [''faces'', ''houses'']
     [\<lparr>name = ''pos'', type = ''T'', weights = [Num 1, Num 0]\<rparr>,
      \<lparr>name = ''odd'', type = ''t'', weights = [Num 1, Num 1]\<rparr>,
      \<lparr>name = ''any'', type = ''F'', weights = [Arr [Num 1, Num 0]]\<rparr>]) = [''any'', ''pos'']"
  using contrast_list_other_types_omitted
    [where condition_names = "[''faces'', ''houses'']"
       and con_specs = "[\<lparr>name = ''pos'', type = ''T'', weights = [Num 1, Num 0]\<rparr>,
      \<lparr>name = ''odd'', type = ''t'', weights = [Num 1, Num 1]\<rparr>,
      \<lparr>name = ''any'', type = ''F'', weights = [Arr [Num 1, Num 0]]\<rparr>]"]
  by (simp add: contrast_list_def)

subsection \<open>Subject information\<close>

lemma subject_runs_returns:
  "i + length event_files \<le> length nss_files \<or> event_files = [] \<Longrightarrow>
   subject_runs fs nss_files i event_files
     = Inr (map2 (\<lambda>f n. run_bunch (read_table fs f) (loadtxt fs n)) event_files (drop i nss_files),
            map (\<lambda>f. map condition (read_table fs f)) event_files)"
proof (induction event_files arbitrary: i)
  case Nil
  then show ?case by simp
next
  case (Cons f event_files)
  then have i: "i < length nss_files" and rest: "Suc i + length event_files \<le> length nss_files"
    by auto
  from i have d: "drop i nss_files = nss_files ! i # drop (Suc i) nss_files"
    by (simp add: Cons_nth_drop_Suc)
  show ?case
    using Cons.IH [of "Suc i"] rest i by (simp add: d Let_def)
qed

lemma subject_runs_Inr_enough:
  "subject_runs fs nss_files i event_files = Inr r \<Longrightarrow>
   i + length event_files \<le> length nss_files \<or> event_files = []"
proof (induction event_files arbitrary: i r)
  case Nil
  then show ?case by simp
next
  case (Cons f event_files)
  from Cons.prems have i: "i < length nss_files"
    by (auto simp: Let_def split: if_splits)
  from Cons.prems i obtain r' where "subject_runs fs nss_files (Suc i) event_files = Inr r'"
    by (auto simp: Let_def split: sum.splits)
  from Cons.IH [OF this] i show ?case by auto
qed

lemma run_bunch_conditions:
  "conditions (run_bunch trialinfo nss)
     = filter (\<lambda>k. k \<noteq> ''empty'') (sort (remdups (map condition trialinfo)))"
  by (simp add: run_bunch_def groupby_condition_def Let_def filter_map comp_def)

lemma run_bunch_lengths:
  "length (onsets (run_bunch trialinfo nss)) = length (conditions (run_bunch trialinfo nss))"
  "length (durations (run_bunch trialinfo nss)) = length (conditions (run_bunch trialinfo nss))"
  by (simp_all add: run_bunch_def Let_def)

lemma run_bunch_group:
  assumes "g < length (conditions (run_bunch trialinfo nss))"
  shows "onsets (run_bunch trialinfo nss) ! g
           = map (\<lambda>r. onset r - nss)
               (filter (\<lambda>r. condition r = conditions (run_bunch trialinfo nss) ! g) trialinfo)"
    and "durations (run_bunch trialinfo nss) ! g
           = map duration
               (filter (\<lambda>r. condition r = conditions (run_bunch trialinfo nss) ! g) trialinfo)"
  using assms
  by (simp_all add: run_bunch_def groupby_condition_def Let_def filter_map comp_def)


lemma example_subjectinfo:
  "subjectinfo example_fs ''01'' ''t''
     = Inr ([\<lparr>conditions = [''faces'', ''houses''], onsets = [[26], [6, 36]], durations = [[2], [2, 5]]\<rparr>,
             \<lparr>conditions = [''houses''], onsets = [[- 1]], durations = [[1]]\<rparr>],
            [[''houses'', ''empty'', ''faces'', ''houses''], [''houses'']])"
  by code_simp

text \<open>
  Claim C5. The event files and the non-steady-state files of a subject and task are each
  sorted by name and paired by position. When every event file has a partner,
  \<^const>\<open>subjectinfo\<close> returns; and whenever it returns, it gives one entry for each run, in
  which the onsets listed for a condition are the onsets of the event rows of that
  condition, in table order, each minus the non-steady-state value of the run, and the
  durations listed for it are the durations of those rows, unchanged.
\<close>

theorem subjectinfo_onsets_shifted:
  fixes fs :: "'a::minus filesystem"
  shows
  "(length (glob fs (events_template subject task))
      \<le> length (glob fs (nss_template subject task))
    \<longrightarrow> (\<exists>r. subjectinfo fs subject task = Inr r))
   \<and> (\<forall>subject_info stimuli_order.
        subjectinfo fs subject task = Inr (subject_info, stimuli_order) \<longrightarrow>
        length subject_info = length (glob fs (events_template subject task))
        \<and> (\<forall>i < length subject_info.
             length (onsets (subject_info ! i)) = length (conditions (subject_info ! i))
           \<and> length (durations (subject_info ! i)) = length (conditions (subject_info ! i))
           \<and> (\<forall>g < length (conditions (subject_info ! i)).
                 onsets (subject_info ! i) ! g
                   = map (\<lambda>r. onset r
                               - loadtxt fs (sort (glob fs (nss_template subject task)) ! i))
                       (filter (\<lambda>r. condition r = conditions (subject_info ! i) ! g)
                          (read_table fs (sort (glob fs (events_template subject task)) ! i)))
               \<and> durations (subject_info ! i) ! g
                   = map duration
                       (filter (\<lambda>r. condition r = conditions (subject_info ! i) ! g)
                          (read_table fs (sort (glob fs (events_template subject task)) ! i))))))"
proof -
  define evs where "evs = sort (glob fs (events_template subject task))"
  define nss where "nss = sort (glob fs (nss_template subject task))"
  have len_evs: "length evs = length (glob fs (events_template subject task))"
    and len_nss: "length nss = length (glob fs (nss_template subject task))"
    by (simp_all add: evs_def nss_def)
  have run: "subjectinfo fs subject task = subject_runs fs nss 0 evs"
    by (simp add: subjectinfo_def evs_def nss_def)
  have returns: "\<exists>r. subjectinfo fs subject task = Inr r"
    if "length (glob fs (events_template subject task))
          \<le> length (glob fs (nss_template subject task))"
    using subject_runs_returns [of 0 evs nss fs] that by (simp add: run len_evs len_nss)
  have shape: "length subject_info = length (glob fs (events_template subject task))
        \<and> (\<forall>i < length subject_info.
             length (onsets (subject_info ! i)) = length (conditions (subject_info ! i))
           \<and> length (durations (subject_info ! i)) = length (conditions (subject_info ! i))
           \<and> (\<forall>g < length (conditions (subject_info ! i)).
                 onsets (subject_info ! i) ! g
                   = map (\<lambda>r. onset r - loadtxt fs (nss ! i))
                       (filter (\<lambda>r. condition r = conditions (subject_info ! i) ! g)
                          (read_table fs (evs ! i)))
               \<and> durations (subject_info ! i) ! g
                   = map duration
                       (filter (\<lambda>r. condition r = conditions (subject_info ! i) ! g)
                          (read_table fs (evs ! i)))))"
    if res: "subjectinfo fs subject task = Inr (subject_info, stimuli_order)"
    for subject_info stimuli_order
  proof -
    from res have r: "subject_runs fs nss 0 evs = Inr (subject_info, stimuli_order)"
      by (simp add: run)
    from subject_runs_Inr_enough [OF r] have enough: "length evs \<le> length nss \<or> evs = []"
      by simp
    then have info: "subject_info
        = map2 (\<lambda>f n. run_bunch (read_table fs f) (loadtxt fs n)) evs nss"
      using subject_runs_returns [of 0 evs nss fs] r by auto
    have len: "length subject_info = length evs"
      using enough by (auto simp: info)
    have nth: "subject_info ! i = run_bunch (read_table fs (evs ! i)) (loadtxt fs (nss ! i))"
      if "i < length subject_info" for i
      using that by (simp add: info)
    show ?thesis
      using len by (simp add: nth len_evs run_bunch_lengths run_bunch_group)
  qed
  show ?thesis
    using returns shape unfolding evs_def nss_def by blast
qed


theorem subjectinfo_onsets_shifted_witness:
  "length (glob example_fs (events_template ''01'' ''t''))
     \<le> length (glob example_fs (nss_template ''01'' ''t''))
   \<and> subjectinfo example_fs ''01'' ''t''
     = Inr ([\<lparr>conditions = [''faces'', ''houses''], onsets = [[26], [6, 36]], durations = [[2], [2, 5]]\<rparr>,
             \<lparr>conditions = [''houses''], onsets = [[- 1]], durations = [[1]]\<rparr>],
            [[''houses'', ''empty'', ''faces'', ''houses''], [''houses'']])
   \<and> [[26], [6, 36]] ! 1
     = map (\<lambda>r. onset r - loadtxt example_fs (sort (glob example_fs (nss_template ''01'' ''t'')) ! 0))
         (filter (\<lambda>r. condition r = [''faces'', ''houses''] ! 1)
            (read_table example_fs (sort (glob example_fs (events_template ''01'' ''t'')) ! 0)))
   \<and> [[2], [2, 5 :: int]] ! 1
     = map duration
         (filter (\<lambda>r. condition r = [''faces'', ''houses''] ! 1)
            (read_table example_fs (sort (glob example_fs (events_template ''01'' ''t'')) ! 0)))"
proof -
  have hyp: "length (glob example_fs (events_template ''01'' ''t''))
     \<le> length (glob example_fs (nss_template ''01'' ''t''))"
    by code_simp
  note inst = subjectinfo_onsets_shifted [where fs = example_fs and subject = "''01''"
      and task = "''t''"]
  note runs = inst [THEN conjunct2, rule_format, OF example_subjectinfo, THEN conjunct2,
      rule_format, of 0, simplified, rule_format, of 1]
  from hyp example_subjectinfo runs show ?thesis
    by simp
qed


text \<open>
  Claim C10. Whenever \<^const>\<open>subjectinfo\<close> returns, the condition list of every run is free
  of \<^verbatim>\<open>'empty'\<close> (it holds exactly the other conditions of the run's event table), while
  the stimuli order of the run is the condition column of the event table, row by row,
  \<^verbatim>\<open>'empty'\<close> rows included.
\<close>

theorem subjectinfo_empty_excluded:
  fixes fs :: "'a::minus filesystem"
  shows
  "\<forall>subject_info stimuli_order.
     subjectinfo fs subject task = Inr (subject_info, stimuli_order) \<longrightarrow>
     length subject_info = length (glob fs (events_template subject task))
     \<and> length stimuli_order = length (glob fs (events_template subject task))
     \<and> (\<forall>i < length (glob fs (events_template subject task)).
          ''empty'' \<notin> set (conditions (subject_info ! i))
        \<and> set (conditions (subject_info ! i))
            = set (map condition
                (read_table fs (sort (glob fs (events_template subject task)) ! i)))
              - {''empty''}
        \<and> stimuli_order ! i
            = map condition
                (read_table fs (sort (glob fs (events_template subject task)) ! i)))"
proof (intro allI impI)
  fix subject_info stimuli_order
  assume res: "subjectinfo fs subject task = Inr (subject_info, stimuli_order)"
  define evs where "evs = sort (glob fs (events_template subject task))"
  define nss where "nss = sort (glob fs (nss_template subject task))"
  have len_evs: "length evs = length (glob fs (events_template subject task))"
    by (simp add: evs_def)
  from res have r: "subject_runs fs nss 0 evs = Inr (subject_info, stimuli_order)"
    by (simp add: subjectinfo_def evs_def nss_def)
  from subject_runs_Inr_enough [OF r] have enough: "length evs \<le> length nss \<or> evs = []"
    by simp
  then have info: "subject_info
      = map2 (\<lambda>f n. run_bunch (read_table fs f) (loadtxt fs n)) evs nss"
    and order: "stimuli_order = map (\<lambda>f. map condition (read_table fs f)) evs"
    using subject_runs_returns [of 0 evs nss fs] r by auto
  have len: "length subject_info = length evs" "length stimuli_order = length evs"
    using enough by (auto simp: info order)
  have nth: "subject_info ! i = run_bunch (read_table fs (evs ! i)) (loadtxt fs (nss ! i))"
    if "i < length evs" for i
    using that len by (simp add: info)
  have "length subject_info = length evs \<and> length stimuli_order = length evs
     \<and> (\<forall>i < length evs.
          ''empty'' \<notin> set (conditions (subject_info ! i))
        \<and> set (conditions (subject_info ! i))
            = set (map condition (read_table fs (evs ! i))) - {''empty''}
        \<and> stimuli_order ! i = map condition (read_table fs (evs ! i)))"
    using len by (auto simp: nth run_bunch_conditions order)
  then show "length subject_info = length (glob fs (events_template subject task))
     \<and> length stimuli_order = length (glob fs (events_template subject task))
     \<and> (\<forall>i < length (glob fs (events_template subject task)).
          ''empty'' \<notin> set (conditions (subject_info ! i))
        \<and> set (conditions (subject_info ! i))
            = set (map condition
                (read_table fs (sort (glob fs (events_template subject task)) ! i)))
              - {''empty''}
        \<and> stimuli_order ! i
            = map condition
                (read_table fs (sort (glob fs (events_template subject task)) ! i)))"
    unfolding evs_def [symmetric] len_evs [symmetric] .
qed

theorem subjectinfo_empty_excluded_witness:
  "subjectinfo example_fs ''01'' ''t''
     = Inr ([\<lparr>conditions = [''faces'', ''houses''], onsets = [[26], [6, 36]], durations = [[2], [2, 5]]\<rparr>,
             \<lparr>conditions = [''houses''], onsets = [[- 1]], durations = [[1]]\<rparr>],
            [[''houses'', ''empty'', ''faces'', ''houses''], [''houses'']])
   \<and> ''empty'' \<notin> set [''faces'', ''houses'']
   \<and> [''houses'', ''empty'', ''faces'', ''houses'']
       = map condition
           (read_table example_fs (sort (glob example_fs (events_template ''01'' ''t'')) ! 0))"
proof -
  have n: "0 < length (glob example_fs (events_template ''01'' ''t''))"
    by code_simp
  note inst = subjectinfo_empty_excluded [where fs = example_fs and subject = "''01''"
      and task = "''t''"]
  note run0 = inst [rule_format, OF example_subjectinfo, THEN conjunct2, THEN conjunct2,
      rule_format, OF n]
  from example_subjectinfo run0 show ?thesis
    by simp
qed

subsection \<open>Iterables and configuration\<close>

lemma nth_concat_uniform:
  "(\<And>xs. xs \<in> set xss \<Longrightarrow> length xs = n) \<Longrightarrow> i < length xss \<Longrightarrow> j < n
     \<Longrightarrow> concat xss ! (i * n + j) = xss ! i ! j"
proof (induction xss arbitrary: i)
  case Nil
  then show ?case by simp
next
  case (Cons xs xss)
  have n: "length xs = n" using Cons.prems(1) by simp
  show ?case
  proof (cases i)
    case 0
    with Cons.prems n show ?thesis by (simp add: nth_append)
  next
    case (Suc i')
    with Cons.prems have "concat xss ! (i' * n + j) = xss ! i' ! j"
      by (intro Cons.IH) auto
    with Suc n show ?thesis by (simp add: nth_append)
  qed
qed

lemma length_concat_uniform:
  "(\<And>xs. xs \<in> set xss \<Longrightarrow> length xs = n) \<Longrightarrow> length (concat xss) = length xss * n"
  by (induction xss) auto

lemma cartesian_Cons:
  "cartesian ((axis, vals) # axes)
     = concat (map (\<lambda>v. map (\<lambda>b. (axis, v) # b) (cartesian axes)) vals)"
  by simp

lemma length_cartesian_Cons:
  "length (cartesian ((axis, vals) # axes)) = length vals * length (cartesian axes)"
  unfolding cartesian_Cons by (rule length_concat_uniform [THEN trans]) auto

lemma nth_cartesian_Cons:
  assumes "i < length vals" and "j < length (cartesian axes)"
  shows "cartesian ((axis, vals) # axes) ! (i * length (cartesian axes) + j)
           = (axis, vals ! i) # cartesian axes ! j"
proof -
  have "concat (map (\<lambda>v. map (\<lambda>b. (axis, v) # b) (cartesian axes)) vals)
          ! (i * length (cartesian axes) + j)
      = map (\<lambda>v. map (\<lambda>b. (axis, v) # b) (cartesian axes)) vals ! i ! j"
    using assms by (intro nth_concat_uniform) auto
  with assms show ?thesis unfolding cartesian_Cons by simp
qed

lemma length_cartesian:
  "length (cartesian axes) = prod_list (map (\<lambda>a. length (snd a)) axes)"
proof (induction axes)
  case Nil
  show ?case by simp
next
  case (Cons a axes)
  obtain axis vals where a: "a = (axis, vals)" by (cases a)
  show ?case unfolding a length_cartesian_Cons using Cons.IH by simp
qed

lemma cartesian_three:
  assumes i: "i < length S" and j: "j < length T" and k: "k < length F"
  shows "cartesian [(a, S), (b, T), (c, F)] ! ((i * length T + j) * length F + k)
           = [(a, S ! i), (b, T ! j), (c, F ! k)]"
proof -
  have l1: "length (cartesian [(c, F)]) = length F"
    by (simp add: length_cartesian del: cartesian.simps)
  have l2: "length (cartesian [(b, T), (c, F)]) = length T * length F"
    by (simp add: length_cartesian del: cartesian.simps)
  have e1: "cartesian [(c, F)] ! k = [(c, F ! k)]"
    using nth_cartesian_Cons [of k F 0 "[]" c] k by simp
  have "j * length F + k < length T * length F"
  proof -
    have "j * length F + k < j * length F + length F" using k by simp
    also have "\<dots> = Suc j * length F" by simp
    also have "\<dots> \<le> length T * length F" using j by (intro mult_le_mono1) simp
    finally show ?thesis .
  qed
  then have jk: "j * length F + k < length (cartesian [(b, T), (c, F)])"
    by (simp only: l2)
  have e2: "cartesian [(b, T), (c, F)] ! (j * length F + k) = [(b, T ! j), (c, F ! k)]"
    using nth_cartesian_Cons [of j T k "[(c, F)]" b] j k
    by (simp only: l1 e1)
  have idx: "(i * length T + j) * length F + k
      = i * length (cartesian [(b, T), (c, F)]) + (j * length F + k)"
    by (simp only: l2) algebra
  show ?thesis
    unfolding idx using nth_cartesian_Cons [OF i jk, of a] by (simp only: e2)
qed

lemma branches_unfold:
  "branches sp =
     (if subject_list sp = [] \<or> filters_temporal sp = [] \<or> filters_spatial sp = []
      then Inl ConfigError
      else Inr (cartesian [(''subject_id'', subject_list sp),
                           (''tFilter'', map Arr (filters_temporal sp)),
                           (''sFilter'', map Arr (filters_spatial sp))]))"
  by (simp add: branches_def expand_def infosource_iterables_def selectfiles_iterables_def
      del: cartesian.simps)

text \<open>
  Claim C1. For a specification with \<open>m\<close> subjects, \<open>n\<close> temporal filters and \<open>k\<close> spatial
  filters, none of the three lists empty, the expansion returns exactly \<open>m * n * k\<close>
  parameter tuples, one for each element of the Cartesian product. Their order follows the
  declaration order of the axes (subject, temporal filter, spatial filter) and the
  sequence order within each axis: the tuple of the subject \<open>i\<close>, the temporal filter \<open>j\<close>
  and the spatial filter \<open>k\<close> stands at the position \<open>(i * n + j) * k' + k\<close>, where \<open>k'\<close> is
  the number of spatial filters. When one of the lists is empty the product \<open>m * n * k\<close> is
  zero and the expansion produces no tuple: it fails with \<open>ConfigError\<close>, as section 4.2
  of the specification has it. The enumeration depends on the three axes and on nothing
  else: specifications with the same three lists, whatever their other options, expand to
  the same tuples in the same order.
\<close>

theorem branches_cartesian_product:
  "((subject_list sp \<noteq> [] \<and> filters_temporal sp \<noteq> [] \<and> filters_spatial sp \<noteq> []) \<longrightarrow>
      (\<exists>bs. branches sp = Inr bs
         \<and> length bs
             = length (subject_list sp) * length (filters_temporal sp)
                 * length (filters_spatial sp)
         \<and> (\<forall>i < length (subject_list sp). \<forall>j < length (filters_temporal sp).
              \<forall>k < length (filters_spatial sp).
                bs ! ((i * length (filters_temporal sp) + j) * length (filters_spatial sp) + k)
                  = [(''subject_id'', subject_list sp ! i),
                     (''tFilter'', Arr (filters_temporal sp ! j)),
                     (''sFilter'', Arr (filters_spatial sp ! k))])))
   \<and> ((subject_list sp = [] \<or> filters_temporal sp = [] \<or> filters_spatial sp = []) \<longrightarrow>
        branches sp = Inl ConfigError)
   \<and> (\<forall>sp'. subject_list sp' = subject_list sp
          \<and> filters_temporal sp' = filters_temporal sp
          \<and> filters_spatial sp' = filters_spatial sp \<longrightarrow>
        branches sp' = branches sp)"
proof -
  let ?S = "subject_list sp" and ?T = "map Arr (filters_temporal sp)"
    and ?F = "map Arr (filters_spatial sp)"
  let ?bs = "cartesian [(''subject_id'', ?S), (''tFilter'', ?T), (''sFilter'', ?F)]"
  have len: "length ?bs = length ?S * length (filters_temporal sp) * length (filters_spatial sp)"
    by (simp add: length_cartesian del: cartesian.simps)
  have nth: "?bs ! ((i * length (filters_temporal sp) + j) * length (filters_spatial sp) + k)
      = [(''subject_id'', ?S ! i), (''tFilter'', Arr (filters_temporal sp ! j)),
         (''sFilter'', Arr (filters_spatial sp ! k))]"
    if "i < length ?S" "j < length (filters_temporal sp)" "k < length (filters_spatial sp)"
    for i j k
    using cartesian_three [of i ?S j ?T k ?F] that by simp
  have full: "\<exists>bs. branches sp = Inr bs
         \<and> length bs
             = length (subject_list sp) * length (filters_temporal sp)
                 * length (filters_spatial sp)
         \<and> (\<forall>i < length (subject_list sp). \<forall>j < length (filters_temporal sp).
              \<forall>k < length (filters_spatial sp).
                bs ! ((i * length (filters_temporal sp) + j) * length (filters_spatial sp) + k)
                  = [(''subject_id'', subject_list sp ! i),
                     (''tFilter'', Arr (filters_temporal sp ! j)),
                     (''sFilter'', Arr (filters_spatial sp ! k))])"
    if "subject_list sp \<noteq> [] \<and> filters_temporal sp \<noteq> [] \<and> filters_spatial sp \<noteq> []"
  proof (intro exI [of _ ?bs] conjI)
    show "branches sp = Inr ?bs"
      using that by (simp add: branches_unfold del: cartesian.simps)
    show "length ?bs = length (subject_list sp) * length (filters_temporal sp)
        * length (filters_spatial sp)"
      by (rule len)
    show "\<forall>i < length (subject_list sp). \<forall>j < length (filters_temporal sp).
        \<forall>k < length (filters_spatial sp).
          ?bs ! ((i * length (filters_temporal sp) + j) * length (filters_spatial sp) + k)
            = [(''subject_id'', subject_list sp ! i),
               (''tFilter'', Arr (filters_temporal sp ! j)),
               (''sFilter'', Arr (filters_spatial sp ! k))]"
      using nth by blast
  qed
  have failing: "branches sp = Inl ConfigError"
    if "subject_list sp = [] \<or> filters_temporal sp = [] \<or> filters_spatial sp = []"
    using that by (simp add: branches_unfold del: cartesian.simps)
  have frame: "branches sp' = branches sp"
    if "subject_list sp' = subject_list sp \<and> filters_temporal sp' = filters_temporal sp
        \<and> filters_spatial sp' = filters_spatial sp" for sp'
    using that by (simp add: branches_unfold del: cartesian.simps)
  from full failing frame show ?thesis by blast
qed


theorem branches_cartesian_product_witness:
  "(\<exists>bs. branches example_specs = Inr bs
      \<and> length bs = 12
      \<and> bs ! 1 = [(''subject_id'', Str ''01''), (''tFilter'', Arr [Num 5, Num 100]),
                  (''sFilter'', Arr [Str ''LP'', Num 3])]
      \<and> bs ! 2 = [(''subject_id'', Str ''01''), (''tFilter'', Arr [Num 5, Num 50]),
                  (''sFilter'', Arr [Str ''LP'', Num 6])]
      \<and> bs ! 6 = [(''subject_id'', Str ''02''), (''tFilter'', Arr [Num 5, Num 100]),
                  (''sFilter'', Arr [Str ''LP'', Num 6])]
      \<and> bs ! 11 = [(''subject_id'', Str ''02''), (''tFilter'', Arr [Num 0, Num 100]),
                   (''sFilter'', Arr [Str ''LP'', Num 3])])
   \<and> branches (example_specs\<lparr>subject_list := []\<rparr>) = Inl ConfigError
   \<and> branches (example_specs\<lparr>task_id := ''rest''\<rparr>) = branches example_specs"
proof -
  have ne: "subject_list example_specs \<noteq> [] \<and> filters_temporal example_specs \<noteq> []
      \<and> filters_spatial example_specs \<noteq> []"
    by (simp add: example_specs_def)
  from branches_cartesian_product [of example_specs, THEN conjunct1, rule_format, OF ne]
  obtain bs where b: "branches example_specs = Inr bs"
    and len: "length bs = length (subject_list example_specs)
        * length (filters_temporal example_specs) * length (filters_spatial example_specs)"
    and nth: "\<And>i j k. i < length (subject_list example_specs)
        \<Longrightarrow> j < length (filters_temporal example_specs)
        \<Longrightarrow> k < length (filters_spatial example_specs)
        \<Longrightarrow> bs ! ((i * length (filters_temporal example_specs) + j)
                    * length (filters_spatial example_specs) + k)
            = [(''subject_id'', subject_list example_specs ! i),
               (''tFilter'', Arr (filters_temporal example_specs ! j)),
               (''sFilter'', Arr (filters_spatial example_specs ! k))]"
    by blast
  have p1: "bs ! 1 = [(''subject_id'', Str ''01''), (''tFilter'', Arr [Num 5, Num 100]),
                  (''sFilter'', Arr [Str ''LP'', Num 3])]"
    using nth [of 0 0 1] by (simp add: example_specs_def eval_nat_numeral)
  have p2: "bs ! 2 = [(''subject_id'', Str ''01''), (''tFilter'', Arr [Num 5, Num 50]),
                  (''sFilter'', Arr [Str ''LP'', Num 6])]"
    using nth [of 0 1 0] by (simp add: example_specs_def eval_nat_numeral)
  have p6: "bs ! 6 = [(''subject_id'', Str ''02''), (''tFilter'', Arr [Num 5, Num 100]),
                  (''sFilter'', Arr [Str ''LP'', Num 6])]"
    using nth [of 1 0 0] by (simp add: example_specs_def eval_nat_numeral)
  have p11: "bs ! 11 = [(''subject_id'', Str ''02''), (''tFilter'', Arr [Num 0, Num 100]),
                   (''sFilter'', Arr [Str ''LP'', Num 3])]"
    using nth [of 1 2 1] by (simp add: example_specs_def eval_nat_numeral)
  have l: "length bs = 12"
    using len by (simp add: example_specs_def)
  have e: "branches (example_specs\<lparr>subject_list := []\<rparr>) = Inl ConfigError"
    using branches_cartesian_product [of "example_specs\<lparr>subject_list := []\<rparr>",
        THEN conjunct2, THEN conjunct1]
    by simp
  have f: "branches (example_specs\<lparr>task_id := ''rest''\<rparr>) = branches example_specs"
    using branches_cartesian_product [of example_specs, THEN conjunct2, THEN conjunct2,
        rule_format, of "example_specs\<lparr>task_id := ''rest''\<rparr>"]
    by simp
  from b l p1 p2 p6 p11 e f show ?thesis by blast
qed




text \<open>
  Claim C7, as stated, names \<open>ConfigError\<close> as the failure for a task without metadata.
  The TR cell raises Python's own exception: with no metadata file at all it is
  FileNotFoundError.
\<close>

theorem missing_metadata_counterexample:
  "notebook_setup Map.empty example_specs = Inl FileNotFoundError
   \<and> FileNotFoundError \<noteq> ConfigError"
  by (simp add: notebook_setup_def get_TR_def)

text \<open>
  Claim C7, amended. When there is no metadata for the task, the TR cell raises:
  FileNotFoundError when the file \<^verbatim>\<open>/data/task-<task_id>_bold.json\<close> does not exist,
  KeyError when the file has no \<^verbatim>\<open>RepetitionTime\<close> entry. The failure is fatal and comes
  before any node runs: whatever the engine is, the notebook ends with that error without
  calling \<^verbatim>\<open>analysis_1st.run\<close>, and the run of the workflow returns a result only when the
  metadata entry exists.
\<close>

theorem missing_metadata_fatal:
  "(json_files (func_desc_path (task_id sp)) = None \<longrightarrow>
      get_TR json_files (task_id sp) = Inl FileNotFoundError
    \<and> notebook run json_files sp = Inl FileNotFoundError)
   \<and> (\<forall>func_desc. json_files (func_desc_path (task_id sp)) = Some func_desc
          \<and> func_desc ''RepetitionTime'' = None \<longrightarrow>
      get_TR json_files (task_id sp) = Inl KeyError
    \<and> notebook run json_files sp = Inl KeyError)
   \<and> (\<forall>r. notebook run json_files sp = Inr r \<longrightarrow>
        (\<exists>func_desc TR. json_files (func_desc_path (task_id sp)) = Some func_desc
           \<and> func_desc ''RepetitionTime'' = Some TR))"
  by (auto simp: notebook_def notebook_setup_def get_TR_def split: option.splits sum.splits)

theorem missing_metadata_fatal_witness:
  "Map.empty (func_desc_path (task_id example_specs)) = (None :: (string \<rightharpoonup> jvalue) option)
   \<and> notebook Inr Map.empty example_specs = Inl FileNotFoundError
   \<and> [''/data/task-t_bold.json'' \<mapsto> Map.empty] (func_desc_path (task_id example_specs))
       = Some (Map.empty :: string \<rightharpoonup> jvalue)
   \<and> notebook Inr [''/data/task-t_bold.json'' \<mapsto> Map.empty] example_specs = Inl KeyError"
proof -
  have p: "func_desc_path (task_id example_specs) = ''/data/task-t_bold.json''"
    by (simp add: func_desc_path_def opj_def example_specs_def)
  have a: "notebook Inr Map.empty example_specs = Inl FileNotFoundError"
    using missing_metadata_fatal [of Map.empty example_specs Inr]
    by simp
  have b: "notebook Inr [''/data/task-t_bold.json'' \<mapsto> Map.empty] example_specs = Inl KeyError"
    using missing_metadata_fatal
      [of "[''/data/task-t_bold.json'' \<mapsto> Map.empty]" example_specs Inr]
    by (simp add: p)
  from a b p show ?thesis by simp
qed

subsection \<open>Nuisance regressors\<close>

text \<open>
  The selection lists a header once for every selector that occurs in it, in the column
  order of the table; and there is one regressor file for each confound file.
\<close>

lemma selection_repeats:
  "selection keys nuisance_regressors
     = concat (map (\<lambda>k. replicate (length (filter (\<lambda>n. str_in n k) nuisance_regressors)) k) keys)"
proof -
  have inner: "concat (map (\<lambda>n. if str_in n k then [k] else []) ns)
      = replicate (length (filter (\<lambda>n. str_in n k) ns)) k" for k ns
    by (induction ns) simp_all
  show ?thesis
    unfolding selection_def by (simp add: inner)
qed

lemma create_nuisance_regressors_length:
  "length (create_nuisance_regressors cwd read_confounds confounds nuisance_regressors)
     = length confounds"
  by (simp add: create_nuisance_regressors_def case_prod_unfold)

text \<open>
  Claim C6 says that every selected column appears exactly once. The builder selects a
  column once for each selector its header contains: with the selectors \<^verbatim>\<open>'Rotation'\<close> and
  \<^verbatim>\<open>'01'\<close>, the column \<^verbatim>\<open>Rotation01\<close> is written twice to the regressor file.
\<close>

theorem nuisance_column_repeated:
  "create_nuisance_regressors ''/work'' (\<lambda>c. [(''Rotation01'', [1, 2 :: int]), (''FD'', [3, 4])])
     [''sub-01_task-t_run-01_confounds.tsv''] [''Rotation'', ''01'']
   = [(''/work/confounds_00.rst'', [(''Rotation01'', [1, 2]), (''Rotation01'', [1, 2])])]"
  by code_simp

subsection \<open>Contrasts per run\<close>

lemma length_product_comprehension:
  "length [f j i. j \<leftarrow> [0..<m], i \<leftarrow> [0..<n]] = m * n"
proof -
  have "length (concat (map (\<lambda>j. map (f j) [0..<n]) [0..<m])) = length (map (\<lambda>j. map (f j) [0..<n]) [0..<m]) * n"
    by (rule length_concat_uniform) auto
  then show ?thesis by simp
qed

lemma nth_product_comprehension:
  assumes "k < m * n"
  shows "[f j i. j \<leftarrow> [0..<m], i \<leftarrow> [0..<n]] ! k = f (k div n) (k mod n)"
proof -
  from assms have n: "0 < n" by (cases n) auto
  from assms have d: "k div n < m"
    by (simp add: less_mult_imp_div_less)
  have "concat (map (\<lambda>j. map (f j) [0..<n]) [0..<m]) ! (k div n * n + k mod n)
      = map (\<lambda>j. map (f j) [0..<n]) [0..<m] ! (k div n) ! (k mod n)"
    using d n by (intro nth_concat_uniform) auto
  with d n show ?thesis by simp
qed

lemma runs_with_events:
  "set (map fst (concat (map (\<lambda>(i, l). map (Pair i) l) (enumerate 0 stimuli_order))))
     = {i. i < length stimuli_order \<and> stimuli_order ! i \<noteq> []}"
proof (intro set_eqI iffI)
  fix i
  assume "i \<in> set (map fst (concat (map (\<lambda>(i, l). map (Pair i) l) (enumerate 0 stimuli_order))))"
  then obtain p z where p: "p \<in> set (enumerate 0 stimuli_order)" and z: "z \<in> set (snd p)"
    and i: "i = fst p"
    by (auto simp: case_prod_unfold)
  from p have "fst p < length stimuli_order" "stimuli_order ! fst p = snd p"
    by (simp_all add: in_set_enumerate_eq)
  with z i show "i \<in> {i. i < length stimuli_order \<and> stimuli_order ! i \<noteq> []}"
    by auto
next
  fix i
  assume "i \<in> {i. i < length stimuli_order \<and> stimuli_order ! i \<noteq> []}"
  then have i: "i < length stimuli_order" and ne: "stimuli_order ! i \<noteq> []" by auto
  from i have p: "(i, stimuli_order ! i) \<in> set (enumerate 0 stimuli_order)"
    by (simp add: in_set_enumerate_eq)
  from ne obtain z where z: "z \<in> set (stimuli_order ! i)"
    by (cases "stimuli_order ! i") auto
  have "(i, z) \<in> set (concat (map (\<lambda>(i, l). map (Pair i) l) (enumerate 0 stimuli_order)))"
    using p z by (auto simp: case_prod_unfold intro!: bexI [of _ "(i, stimuli_order ! i)"])
  then show "i \<in> set (map fst (concat (map (\<lambda>(i, l). map (Pair i) l) (enumerate 0 stimuli_order))))"
    by force
qed


lemma get_contrast_per_run_unfold:
  "get_contrast_per_run stimuli_order condition_names =
     (case np_reshape_pairs (map (\<lambda>(i, l). map (Pair i) l) (enumerate 0 stimuli_order)) of
        Inl e \<Rightarrow> Inl e
      | Inr event_info \<Rightarrow>
          Inr ([(''cont_'' @ fmt_0d 5 (1 + i + j * length (np_unique (map fst event_info))), ''T'',
                 condition_names, (replicate (length condition_names) 0)[i := 1],
                 (replicate (length (np_unique (map fst event_info))) 0)[j := 1]).
                j \<leftarrow> [0..<length (np_unique (map fst event_info))],
                i \<leftarrow> [0..<length condition_names]],
               [condition_names ! i. j \<leftarrow> [0..<length (np_unique (map fst event_info))],
                i \<leftarrow> [0..<length condition_names]]))"
  unfolding get_contrast_per_run_def Let_def
  by (simp add: case_prod_unfold)

lemma get_contrast_per_run_Inr:
  assumes "get_contrast_per_run stimuli_order condition_names = Inr (cons, labels)"
  shows "\<exists>m. length cons = m * length condition_names
           \<and> labels = [condition_names ! i. j \<leftarrow> [0..<m], i \<leftarrow> [0..<length condition_names]]"
  using assms unfolding get_contrast_per_run_unfold
  by (auto split: sum.splits simp del: concat_map_singleton map_eq_conv
      simp: length_product_comprehension)

lemma get_contrast_per_run_rectangular:
  assumes L: "0 < L" and rect: "\<forall>l \<in> set stimuli_order. length l = L"
  shows "\<exists>cons labels. get_contrast_per_run stimuli_order condition_names = Inr (cons, labels)
           \<and> length cons = length condition_names * length stimuli_order"
proof -
  let ?el = "map (\<lambda>(i, l). map (Pair i) l) (enumerate 0 stimuli_order)"
  have "\<forall>e \<in> set ?el. length e = L"
    using rect by (auto simp: in_set_enumerate_eq)
  then have "list_all (\<lambda>l. length l = length (hd ?el)) ?el"
    by (cases ?el) (auto simp: list_all_iff)
  then have r: "np_reshape_pairs ?el = Inr (concat ?el)"
    by (simp add: np_reshape_pairs_def)
  have "set (map fst (concat ?el)) = {i. i < length stimuli_order \<and> stimuli_order ! i \<noteq> []}"
    by (rule runs_with_events)
  also have "\<dots> = {0..<length stimuli_order}"
    using L rect by (auto simp: all_set_conv_all_nth)
  finally have "card (set (map fst (concat ?el))) = length stimuli_order"
    by simp
  then have n: "length (np_unique (map fst (concat ?el))) = length stimuli_order"
    by (simp add: np_unique_def length_remdups_card_conv)
  show ?thesis
    unfolding get_contrast_per_run_unfold r
    by (simp add: n length_product_comprehension mult.commute
        del: concat_map_singleton)
qed

lemma example_contrast_per_run:
  "get_contrast_per_run [[''faces'', ''empty'', ''houses''], [''houses'', ''faces'', ''empty'']]
     [''faces'', ''houses'']
   = Inr ([(''cont_00001'', ''T'', [''faces'', ''houses''], [1, 0], [1, 0]),
           (''cont_00002'', ''T'', [''faces'', ''houses''], [0, 1], [1, 0]),
           (''cont_00003'', ''T'', [''faces'', ''houses''], [1, 0], [0, 1]),
           (''cont_00004'', ''T'', [''faces'', ''houses''], [0, 1], [0, 1])],
          [''faces'', ''houses'', ''faces'', ''houses''])"
  by code_simp


text \<open>
  What holds of the builder. Whenever it returns, the label list has as many entries as
  there are run contrasts, the label file has that many rows, and the label \<open>k\<close> is
  \<open>condition_names[k mod len(condition_names)]\<close>. When all runs have the same, non-zero
  number of events, it returns and the number of run contrasts is \<open>len(condition_names)\<close>
  times the number of runs. Two runs without events give no contrast.
\<close>

lemma contrast_per_run_counts:
  "(\<forall>cons labels.
      get_contrast_per_run stimuli_order condition_names = Inr (cons, labels) \<longrightarrow>
        length labels = length cons
      \<and> length (snd (write_labels_file labels spm_mat_file)) = length cons
      \<and> (\<forall>k < length labels. labels ! k = condition_names ! (k mod length condition_names)))
   \<and> ((\<exists>L > 0. \<forall>l \<in> set stimuli_order. length l = L) \<longrightarrow>
      (\<exists>cons labels.
         get_contrast_per_run stimuli_order condition_names = Inr (cons, labels)
       \<and> length cons = length condition_names * length stimuli_order))"
proof -
  have general: "length labels = length cons
      \<and> length (snd (write_labels_file labels spm_mat_file)) = length cons
      \<and> (\<forall>k < length labels. labels ! k = condition_names ! (k mod length condition_names))"
    if "get_contrast_per_run stimuli_order condition_names = Inr (cons, labels)" for cons labels
  proof -
    from get_contrast_per_run_Inr [OF that] obtain m
      where c: "length cons = m * length condition_names"
        and l: "labels = [condition_names ! i. j \<leftarrow> [0..<m], i \<leftarrow> [0..<length condition_names]]"
      by blast
    have len: "length labels = m * length condition_names"
      unfolding l by (rule length_product_comprehension)
    have nth: "labels ! k = condition_names ! (k mod length condition_names)"
      if "k < length labels" for k
      using that unfolding len unfolding l by (rule nth_product_comprehension)
    show ?thesis
      using c len nth by (simp add: write_labels_file_def Let_def)
  qed
  have rectangular: "\<exists>cons labels.
         get_contrast_per_run stimuli_order condition_names = Inr (cons, labels)
       \<and> length cons = length condition_names * length stimuli_order"
    if "\<exists>L > 0. \<forall>l \<in> set stimuli_order. length l = L"
    using that get_contrast_per_run_rectangular by blast
  from general rectangular show ?thesis by blast
qed

lemma contrast_per_run_no_events:
  "get_contrast_per_run [[], []] [''faces''] = Inr ([], [])"
  by code_simp

text \<open>
  Claim C4 counts \<open>len(condition_names)\<close> run contrasts for every run of the subject, and
  as many rows of the label file. The source says the same of itself (\<^verbatim>\<open>Create list of
  contrasts for each condition per run\<close>), but the builder does not take the number of
  runs from the list of runs it is given: it reads it off the run indices in the
  reshaped array of all events. For a subject with two events in the first run and one
  in the second the event list is ragged, \<^verbatim>\<open>np.reshape\<close> raises, and the builder returns
  neither contrasts nor labels, where the claim counts \<open>2 * 2\<close> of each.
\<close>

theorem contrast_per_run_ragged:
  "get_contrast_per_run [[''faces'', ''houses''], [''faces'']] [''faces'', ''houses'']
     = Inl ValueError"
  by code_simp

end
